theory Spec2Isabelle
  imports Main
begin

section \<open>The root layout of the application (src/app/layout.tsx)\<close>

text \<open>
  The module consists of four import declarations, one module-level constant
  \<^verbatim>\<open>const inter = Inter({ subsets: ["latin"] })\<close> and the default export
  \<^verbatim>\<open>RootLayout({ children })\<close>, whose body is a single \<^verbatim>\<open>return\<close> of a JSX
  expression. The JSX expression is embedded as the element tree it evaluates to.
\<close>

subsection \<open>Element trees\<close>

text \<open>
  A JSX tag written in lower case (\<^verbatim>\<open><html>\<close>, \<^verbatim>\<open><body>\<close>) is a host element named by a
  string; a capitalised tag (\<^verbatim>\<open><Providers>\<close>) refers to a component binding in scope.
\<close>

datatype element_type = Host string | Component string

text \<open>
  Modelled from the spec: the type declaration \<^verbatim>\<open>React.ReactNode\<close> is not part of the
  sources. The spec calls it "an opaque renderable child tree" that carries "no
  invariants beyond being valid renderable content"; it is modelled as the union React
  declares: strings, numbers, booleans, \<^verbatim>\<open>null\<close>, \<^verbatim>\<open>undefined\<close>, elements and iterables
  of nodes. Numeric leaves are represented by integers; the layout never inspects a
  leaf. An element carries its type, its string-valued attributes in the order they are
  written, and the list of its JSX children.
\<close>

datatype react_node =
    RString string
  | RNumber int
  | RBoolean bool
  | RNull
  | RUndefined
  | RElement element_type "(string \<times> string) list" "react_node list"
  | RIterable "react_node list"

subsection \<open>The font loader and the module scope\<close>

text \<open>
  Modelled from the spec: \<^verbatim>\<open>Inter\<close> is "a font-loading utility from the hosting
  framework" (\<^verbatim>\<open>next/font/google\<close>), not part of the sources. It is taken as a parameter:
  a function from the options object to a font object, of which the layout reads the
  field \<^verbatim>\<open>className\<close> only. The parameter is written \<open>Inter_fn\<close>, since \<open>Inter\<close> is the
  intersection of a set of sets in HOL.
\<close>

record font_options =
  subsets :: "string list"

record next_font =
  className :: string

text \<open>
  The module scope holds the binding \<^verbatim>\<open>inter\<close>. The record is extensible: the
  \<open>more\<close> part of a \<open>'z module_scope_scheme\<close> stands for every other piece of state
  that exists when the component is called.
\<close>

record module_scope =
  inter :: next_font

definition module_init :: "(font_options \<Rightarrow> next_font) \<Rightarrow> module_scope" where
  "module_init Inter_fn = \<lparr> inter = Inter_fn \<lparr> subsets = [''latin''] \<rparr> \<rparr>"

subsection \<open>The import declarations\<close>

text \<open>
  \<^verbatim>\<open>import "m"\<close> is an import for its effect only; \<^verbatim>\<open>import { a, b } from "m"\<close> binds
  the listed names.
\<close>

datatype import_decl =
    SideEffectImport string
  | NamedImport "string list" string

definition layout_imports :: "import_decl list" where
  "layout_imports =
     [ SideEffectImport ''./globals.css'',
       NamedImport [''Inter''] ''next/font/google'',
       NamedImport [''Providers''] ''./providers'',
       SideEffectImport ''molstar/build/viewer/molstar.css'' ]"

fun module_specifier :: "import_decl \<Rightarrow> string" where
  "module_specifier (SideEffectImport m) = m"
| "module_specifier (NamedImport _ m) = m"

fun imported_names :: "import_decl \<Rightarrow> string list" where
  "imported_names (SideEffectImport _) = []"
| "imported_names (NamedImport ns _) = ns"

definition is_stylesheet_import :: "import_decl \<Rightarrow> bool" where
  "is_stylesheet_import d \<longleftrightarrow>
     imported_names d = [] \<and> take 4 (rev (module_specifier d)) = rev ''.css''"

subsection \<open>The component\<close>

record layout_props =
  children :: react_node

text \<open>
  A call of the component takes the state and the props object and completes either
  normally, with the returned element tree and the state after the call, or abruptly
  (\<open>None\<close>). The body of \<^verbatim>\<open>RootLayout\<close> is one \<^verbatim>\<open>return\<close> statement: it reads
  \<^verbatim>\<open>inter.className\<close> and \<^verbatim>\<open>children\<close>, has no \<^verbatim>\<open>throw\<close>, no branch, no call and no
  assignment.
\<close>

definition RootLayout ::
  "'z module_scope_scheme \<Rightarrow> layout_props \<Rightarrow> (react_node \<times> 'z module_scope_scheme) option" where
  "RootLayout s props =
     Some
       (RElement (Host ''html'') [(''lang'', ''en'')]
          [RElement (Host ''body'') [(''className'', className (inter s))]
             [RElement (Component ''Providers'') [] [children props]]],
        s)"

subsection \<open>Observations on element trees\<close>

fun type_of_node :: "react_node \<Rightarrow> element_type option" where
  "type_of_node (RElement ty _ _) = Some ty"
| "type_of_node _ = None"

fun attributes :: "react_node \<Rightarrow> (string \<times> string) list" where
  "attributes (RElement _ as _) = as"
| "attributes _ = []"

fun child_nodes :: "react_node \<Rightarrow> react_node list" where
  "child_nodes (RElement _ _ ks) = ks"
| "child_nodes _ = []"

definition attribute :: "string \<Rightarrow> react_node \<Rightarrow> string option" where
  "attribute name n = map_of (attributes n) name"

text \<open>The number of elements of a given type anywhere in a tree.\<close>

fun count_type :: "element_type \<Rightarrow> react_node \<Rightarrow> nat" where
  "count_type ty (RElement t _ ks) =
     (if t = ty then 1 else 0) + sum_list (map (count_type ty) ks)"
| "count_type ty (RIterable ks) = sum_list (map (count_type ty) ks)"
| "count_type ty _ = 0"

text \<open>
  The children slot of a document shell: the single child of the single child of the
  single child of the root. \<open>slot\<close> reads it, \<open>with_slot\<close> replaces it and leaves
  everything else as it is.
\<close>

fun slot :: "react_node \<Rightarrow> react_node option" where
  "slot (RElement _ _ [RElement _ _ [RElement _ _ [c]]]) = Some c"
| "slot _ = None"

fun with_slot :: "react_node \<Rightarrow> react_node \<Rightarrow> react_node" where
  "with_slot c (RElement t1 a1 [RElement t2 a2 [RElement t3 a3 [_]]]) =
     RElement t1 a1 [RElement t2 a2 [RElement t3 a3 [c]]]"
| "with_slot c n = n"

text \<open>
  A document shell is an \<^verbatim>\<open>html\<close> element whose only child is a \<^verbatim>\<open>body\<close> element.
\<close>

definition is_document_shell :: "react_node \<Rightarrow> bool" where
  "is_document_shell t \<longleftrightarrow>
     type_of_node t = Some (Host ''html'')
     \<and> map type_of_node (child_nodes t) = [Some (Host ''body'')]"

section \<open>Properties\<close>

text \<open>
  C1: for every children input, the call returns a tree whose root is an \<^verbatim>\<open>html\<close>
  element; the children of the root are exactly one \<^verbatim>\<open>body\<close> element; the children of
  that \<^verbatim>\<open>body\<close> are exactly one \<^verbatim>\<open>Providers\<close> element; and the children of that are
  exactly the given children. The layout contributes exactly one element of each of the
  three types: the tree holds one \<^verbatim>\<open>html\<close>, one \<^verbatim>\<open>body\<close> and one \<^verbatim>\<open>Providers\<close> element
  more than the given children hold themselves.
\<close>

theorem RootLayout_structure:
  "\<exists>html body providers.
     RootLayout s props = Some (html, s)
     \<and> type_of_node html = Some (Host ''html'')
     \<and> child_nodes html = [body]
     \<and> type_of_node body = Some (Host ''body'')
     \<and> child_nodes body = [providers]
     \<and> type_of_node providers = Some (Component ''Providers'')
     \<and> child_nodes providers = [children props]
     \<and> count_type (Host ''html'') html = 1 + count_type (Host ''html'') (children props)
     \<and> count_type (Host ''body'') html = 1 + count_type (Host ''body'') (children props)
     \<and> count_type (Component ''Providers'') html =
           1 + count_type (Component ''Providers'') (children props)"
  by (simp add: RootLayout_def)

text \<open>
  C2: for every children input, the node in the children slot of the returned tree is
  the input children itself, whatever it is: nothing is transformed, checked or
  replaced.
\<close>

theorem RootLayout_children_unchanged:
  "\<exists>t. RootLayout s props = Some (t, s) \<and> slot t = Some (children props)"
  by (simp add: RootLayout_def)

text \<open>
  C3: the call completes normally for every state and every props object: it never
  completes abruptly, and the tree it returns is a document shell.
\<close>

theorem RootLayout_total:
  "RootLayout s props \<noteq> None
   \<and> (\<exists>t s'. RootLayout s props = Some (t, s') \<and> is_document_shell t)"
  by (simp add: RootLayout_def is_document_shell_def)

text \<open>
  C4: two calls with equal children, in any two states that agree on the constant
  binding \<^verbatim>\<open>inter\<close> (in particular in the same state, or one after the other), return
  the same tree, and each call leaves the whole state as it found it. The binding
  \<^verbatim>\<open>inter\<close> is a \<^verbatim>\<open>const\<close> that the module does not export, so all calls in one
  program run in states that agree on it; the two states may differ in everything else.
\<close>

theorem RootLayout_pure:
  "children p1 = children p2 \<Longrightarrow> inter s2 = inter s1 \<Longrightarrow>
     \<exists>t. RootLayout s1 p1 = Some (t, s1) \<and> RootLayout s2 p2 = Some (t, s2)"
  by (simp add: RootLayout_def)

theorem RootLayout_pure_witness:
  "children \<lparr> children = RString ''page'' \<rparr> = children \<lparr> children = RString ''page'' \<rparr>
   \<and> inter \<lparr> inter = \<lparr> className = ''inter_x'' \<rparr>, \<dots> = (7::nat) \<rparr>
       = inter \<lparr> inter = \<lparr> className = ''inter_x'' \<rparr>, \<dots> = False \<rparr>
   \<and> (\<exists>t. RootLayout \<lparr> inter = \<lparr> className = ''inter_x'' \<rparr>, \<dots> = False \<rparr>
               \<lparr> children = RString ''page'' \<rparr>
             = Some (t, \<lparr> inter = \<lparr> className = ''inter_x'' \<rparr>, \<dots> = False \<rparr>)
          \<and> RootLayout \<lparr> inter = \<lparr> className = ''inter_x'' \<rparr>, \<dots> = (7::nat) \<rparr>
               \<lparr> children = RString ''page'' \<rparr>
             = Some (t, \<lparr> inter = \<lparr> className = ''inter_x'' \<rparr>, \<dots> = (7::nat) \<rparr>))"
  using RootLayout_pure
    [of "\<lparr> children = RString ''page'' \<rparr>" "\<lparr> children = RString ''page'' \<rparr>"
        "\<lparr> inter = \<lparr> className = ''inter_x'' \<rparr>, \<dots> = (7::nat) \<rparr>"
        "\<lparr> inter = \<lparr> className = ''inter_x'' \<rparr>, \<dots> = False \<rparr>"]
  by simp

text \<open>
  C5: in the module as initialised, for every children input, the \<^verbatim>\<open>body\<close> element of
  the returned tree has the attribute \<^verbatim>\<open>className\<close>, and its value is the
  \<^verbatim>\<open>className\<close> of the font object that the loader returns for the options
  \<^verbatim>\<open>{ subsets: ["latin"] }\<close>.
\<close>

theorem RootLayout_body_font_class:
  "\<exists>t body.
     RootLayout (module_init Inter_fn) props = Some (t, module_init Inter_fn)
     \<and> child_nodes t = [body]
     \<and> type_of_node body = Some (Host ''body'')
     \<and> attribute ''className'' body
         = Some (className (Inter_fn \<lparr> subsets = [''latin''] \<rparr>))"
  by (simp add: RootLayout_def module_init_def attribute_def)

text \<open>
  C6: the module has four import declarations, for four different modules. Two are
  imports of stylesheets for their effect: the global stylesheet and the stylesheet of
  the molecular viewer. The other two bind one name each: \<^verbatim>\<open>Inter\<close> from the
  framework's font module and \<^verbatim>\<open>Providers\<close> from the providers module. Nothing else is
  imported.
\<close>

theorem layout_imports_exact:
  "length layout_imports = 4
   \<and> distinct (map module_specifier layout_imports)
   \<and> set (map module_specifier layout_imports)
       = {''./globals.css'', ''molstar/build/viewer/molstar.css'',
          ''next/font/google'', ''./providers''}
   \<and> map module_specifier (filter is_stylesheet_import layout_imports)
       = [''./globals.css'', ''molstar/build/viewer/molstar.css'']
   \<and> map (\<lambda>d. (imported_names d, module_specifier d))
         (filter (\<lambda>d. \<not> is_stylesheet_import d) layout_imports)
       = [([''Inter''], ''next/font/google''), ([''Providers''], ''./providers'')]"
  by (auto simp add: layout_imports_def is_stylesheet_import_def)


text \<open>
  C7: for every children input (and every state), the call returns a tree whose root is
  the \<^verbatim>\<open>html\<close> host element, and that element carries the attribute \<^verbatim>\<open>lang="en"\<close>.
\<close>

theorem RootLayout_html_lang_en:
  "\<exists>t. RootLayout s props = Some (t, s)
     \<and> type_of_node t = Some (Host ''html'')
     \<and> attribute ''lang'' t = Some ''en''"
  by (simp add: RootLayout_def attribute_def)

text \<open>
  C8: for any two children inputs, the two returned trees differ in the children slot
  only: putting the second children into the slot of the first tree gives the second
  tree. In particular the type and attributes of the root (\<^verbatim>\<open>html\<close>, \<^verbatim>\<open>lang\<close>) and the
  types and attributes of its children (\<^verbatim>\<open>body\<close>, \<^verbatim>\<open>className\<close>) are the same in both.
\<close>

theorem RootLayout_shell_independent:
  "\<exists>t1 t2.
     RootLayout s p1 = Some (t1, s)
     \<and> RootLayout s p2 = Some (t2, s)
     \<and> with_slot (children p2) t1 = t2
     \<and> type_of_node t1 = type_of_node t2
     \<and> attribute ''lang'' t1 = attribute ''lang'' t2
     \<and> attributes t1 = attributes t2
     \<and> map type_of_node (child_nodes t1) = map type_of_node (child_nodes t2)
     \<and> map (attribute ''className'') (child_nodes t1)
         = map (attribute ''className'') (child_nodes t2)
     \<and> map attributes (child_nodes t1) = map attributes (child_nodes t2)"
  by (simp add: RootLayout_def attribute_def)

end
